theory Spec2Isabelle
  imports Main "HOL-Library.Word"
begin

unbundle bit_operations_syntax

section \<open>Bytes, strings, errors\<close>

text \<open>
  The program is \<^verbatim>\<open>250511-license-key-system/main.go\<close>. A Go \<^verbatim>\<open>string\<close> and a
  \<^verbatim>\<open>[]byte\<close> are byte sequences: a string is a \<^typ>\<open>string\<close> (the characters of HOL are
  bytes) and a byte slice a list of 8-bit words. A fixed array \<^verbatim>\<open>[16]byte\<close> (a UUID) is a
  byte list whose length is 16; the functions that build one always return that length.
\<close>

type_synonym byte = "8 word"

type_synonym uuid = "byte list"

definition bytes_of_string :: "string \<Rightarrow> byte list" where
  \<comment> \<open>the conversion \<^verbatim>\<open>[]byte(s)\<close>\<close>
  "bytes_of_string s = map of_char s"

definition go_copy :: "nat \<Rightarrow> byte list \<Rightarrow> byte list" where
  \<comment> \<open>\<^verbatim>\<open>dst := make([]byte, n); copy(dst, src)\<close>: the first n bytes of src, zero filled\<close>
  "go_copy n src = take n src @ replicate (n - length src) 0"

text \<open>
  The errors of the libraries the program calls (\<^verbatim>\<open>encoding/hex\<close>, \<^verbatim>\<open>encoding/base64\<close>,
  \<^verbatim>\<open>github.com/google/uuid\<close>, \<^verbatim>\<open>encoding/json\<close>, \<^verbatim>\<open>os\<close>, \<^verbatim>\<open>crypto/rand\<close>, \<^verbatim>\<open>net\<close>).
  The byte offset that base64's \<^verbatim>\<open>CorruptInputError\<close> carries is left out.
\<close>

datatype lib_error =
    ErrLength
  | InvalidByteError char
  | CorruptInputError
  | InvalidLengthError nat
  | UUIDFormatError
  | InvalidURNPrefix string
  | JSONError string
  | OSError string
  | RandError

text \<open>
  One constructor for each error the program itself returns: every \<^verbatim>\<open>fmt.Errorf\<close> site of
  main.go, with the library error it wraps, and the error of \<^verbatim>\<open>os.WriteFile\<close> that
  \<^verbatim>\<open>SaveConfig\<close> and \<^verbatim>\<open>SaveLicense\<close> return as it is.
\<close>

datatype error =
    FailedToMarshalConfig lib_error
  | FailedToCreateDirectory lib_error
  | WriteFileFailed lib_error
  | FailedToReadConfigFile lib_error
  | FailedToParseConfigFile lib_error
  | InvalidPrivateKeyFormat lib_error
  | InvalidNamespaceUUID lib_error
  | FailedToGenerateKeyPair lib_error
  | FailedToGenerateNamespaceUUID lib_error
  | FailedToGetNetworkInterfaces lib_error
  | NoSuitableInterface
  | FailedToMarshalLicenseData lib_error
  | FailedToReadLicenseFile lib_error
  | FailedToParseLicenseFile lib_error
  | InvalidPublicKeyFormat lib_error
  | InvalidUUIDFormat lib_error
  | InvalidLicenseKeyFormat lib_error

text \<open>
  The three error kinds of the specification (section 7) and the kind of each error of
  the program: unreadable or unwritable resources are \<open>IOError\<close>, malformed hex, base64,
  records and namespace identifiers are \<open>FormatError\<close>, a failing random source is
  \<open>CryptoError\<close>.
\<close>

datatype error_kind = IOError | FormatError | CryptoError

fun kind_of :: "error \<Rightarrow> error_kind" where
  "kind_of (FailedToMarshalConfig _) = FormatError"
| "kind_of (FailedToCreateDirectory _) = IOError"
| "kind_of (WriteFileFailed _) = IOError"
| "kind_of (FailedToReadConfigFile _) = IOError"
| "kind_of (FailedToParseConfigFile _) = FormatError"
| "kind_of (InvalidPrivateKeyFormat _) = FormatError"
| "kind_of (InvalidNamespaceUUID _) = FormatError"
| "kind_of (FailedToGenerateKeyPair _) = CryptoError"
| "kind_of (FailedToGenerateNamespaceUUID _) = CryptoError"
| "kind_of (FailedToGetNetworkInterfaces _) = IOError"
| "kind_of NoSuitableInterface = IOError"
| "kind_of (FailedToMarshalLicenseData _) = FormatError"
| "kind_of (FailedToReadLicenseFile _) = IOError"
| "kind_of (FailedToParseLicenseFile _) = FormatError"
| "kind_of (InvalidPublicKeyFormat _) = FormatError"
| "kind_of (InvalidUUIDFormat _) = FormatError"
| "kind_of (InvalidLicenseKeyFormat _) = FormatError"

text \<open>
  A Go function returns a value, returns an error, or panics. The panics the program can
  reach are those of \<^verbatim>\<open>crypto/ed25519\<close> on a key of the wrong length and the slice
  expression \<^verbatim>\<open>priv[32:]\<close> of \<^verbatim>\<open>PrivateKey.Public\<close> on a key shorter than 32 bytes.
\<close>

datatype panic =
    BadPublicKeyLength nat
  | BadPrivateKeyLength nat
  | BadSeedLength nat
  | SliceBoundsOutOfRange nat

datatype 'a result = Ok 'a | Err error | Panic panic

section \<open>encoding/hex\<close>

definition hextable :: string where
  "hextable = ''0123456789abcdef''"

definition hex_EncodeToString :: "byte list \<Rightarrow> string" where
  "hex_EncodeToString src =
     concat (map (\<lambda>v. [hextable ! unat (drop_bit 4 v), hextable ! unat (v AND 0x0f)]) src)"

definition fromHexChar :: "char \<Rightarrow> byte option" where
  \<comment> \<open>the reverse table: digits, \<open>a\<close> to \<open>f\<close> and \<open>A\<close> to \<open>F\<close>\<close>
  "fromHexChar c =
     (let n = (of_char c :: nat) in
      if 48 \<le> n \<and> n \<le> 57 then Some (of_nat (n - 48))
      else if 97 \<le> n \<and> n \<le> 102 then Some (of_nat (n - 97 + 10))
      else if 65 \<le> n \<and> n \<le> 70 then Some (of_nat (n - 65 + 10))
      else None)"

text \<open>
  \<^verbatim>\<open>hex.DecodeString\<close> reads the input two characters at a time and stops at the first
  character that is no hex digit; an input of odd length with hex digits only is
  \<^verbatim>\<open>ErrLength\<close>.
\<close>

fun hex_DecodeString :: "string \<Rightarrow> lib_error + byte list" where
  "hex_DecodeString [] = Inr []"
| "hex_DecodeString [p] =
     (case fromHexChar p of None \<Rightarrow> Inl (InvalidByteError p) | Some _ \<Rightarrow> Inl ErrLength)"
| "hex_DecodeString (p # q # rest) =
     (case fromHexChar p of
        None \<Rightarrow> Inl (InvalidByteError p)
      | Some a \<Rightarrow>
         (case fromHexChar q of
            None \<Rightarrow> Inl (InvalidByteError q)
          | Some b \<Rightarrow>
             (case hex_DecodeString rest of
                Inl e \<Rightarrow> Inl e
              | Inr bs \<Rightarrow> Inr ((push_bit 4 a OR b) # bs))))"

section \<open>github.com/google/uuid\<close>

definition uuid_String :: "uuid \<Rightarrow> string" where
  \<comment> \<open>the canonical text \<^verbatim>\<open>xxxxxxxx-xxxx-xxxx-xxxx-xxxxxxxxxxxx\<close>\<close>
  "uuid_String u =
     hex_EncodeToString (take 4 u) @ ''-'' @
     hex_EncodeToString (take 2 (drop 4 u)) @ ''-'' @
     hex_EncodeToString (take 2 (drop 6 u)) @ ''-'' @
     hex_EncodeToString (take 2 (drop 8 u)) @ ''-'' @
     hex_EncodeToString (drop 10 u)"

definition xtob :: "char \<Rightarrow> char \<Rightarrow> byte option" where
  "xtob x1 x2 =
     (case fromHexChar x1 of
        None \<Rightarrow> None
      | Some b1 \<Rightarrow> (case fromHexChar x2 of None \<Rightarrow> None | Some b2 \<Rightarrow> Some (push_bit 4 b1 OR b2)))"

definition uuid_offsets :: "nat list" where
  "uuid_offsets = [0, 2, 4, 6, 9, 11, 14, 16, 19, 21, 24, 26, 28, 30, 32, 34]"

definition parse_hyphenated :: "string \<Rightarrow> lib_error + uuid" where
  \<comment> \<open>the tail of \<^verbatim>\<open>uuid.Parse\<close>; the caller has checked that s has at least 36 characters\<close>
  "parse_hyphenated s =
     (if s ! 8 \<noteq> CHR ''-'' \<or> s ! 13 \<noteq> CHR ''-'' \<or> s ! 18 \<noteq> CHR ''-'' \<or> s ! 23 \<noteq> CHR ''-''
      then Inl UUIDFormatError
      else (case those (map (\<lambda>x. xtob (s ! x) (s ! (x + 1))) uuid_offsets) of
              None \<Rightarrow> Inl UUIDFormatError
            | Some u \<Rightarrow> Inr u))"

definition to_lower :: "char \<Rightarrow> char" where
  "to_lower c =
     (let n = (of_char c :: nat) in if 65 \<le> n \<and> n \<le> 90 then char_of (n + 32) else c)"

text \<open>
  \<^verbatim>\<open>uuid.Parse\<close> accepts the canonical form (36 characters), the same after
  \<^verbatim>\<open>urn:uuid:\<close> in any letter case (45), the same between two characters it does not
  look at (38), and 32 hex digits.
\<close>

definition uuid_Parse :: "string \<Rightarrow> lib_error + uuid" where
  "uuid_Parse s =
     (if length s = 36 then parse_hyphenated s
      else if length s = 36 + 9 then
        (if map to_lower (take 9 s) \<noteq> ''urn:uuid:'' then Inl (InvalidURNPrefix (take 9 s))
         else parse_hyphenated (drop 9 s))
      else if length s = 36 + 2 then parse_hyphenated (drop 1 s)
      else if length s = 32 then
        (case those (map (\<lambda>i. xtob (s ! (i * 2)) (s ! (i * 2 + 1))) [0..<16]) of
           None \<Rightarrow> Inl UUIDFormatError
         | Some u \<Rightarrow> Inr u)
      else Inl (InvalidLengthError (length s)))"

definition uuid_NewRandomFromBytes :: "byte list \<Rightarrow> uuid" where
  \<comment> \<open>what \<^verbatim>\<open>uuid.NewRandom\<close> does with the 16 bytes it has read: version 4, RFC 4122 variant\<close>
  "uuid_NewRandomFromBytes bs =
     (let u = go_copy 16 bs;
          u = u[6 := (u ! 6 AND 0x0f) OR 0x40];
          u = u[8 := (u ! 8 AND 0x3f) OR 0x80]
      in u)"

section \<open>encoding/base64, the standard encoding with padding\<close>

definition encodeStd :: string where
  "encodeStd = ''ABCDEFGHIJKLMNOPQRSTUVWXYZabcdefghijklmnopqrstuvwxyz0123456789+/''"

definition enc6 :: "32 word \<Rightarrow> nat \<Rightarrow> char" where
  \<comment> \<open>\<^verbatim>\<open>enc.encode[val>>sh&0x3F]\<close>\<close>
  "enc6 val sh = encodeStd ! unat (drop_bit sh val AND 0x3F)"

text \<open>
  \<^verbatim>\<open>Encode\<close> packs three bytes into a 24-bit value and writes four characters; the last
  one or two bytes are written with padding.
\<close>

fun base64_EncodeToString :: "byte list \<Rightarrow> string" where
  "base64_EncodeToString [] = []"
| "base64_EncodeToString [a] =
     (let val = push_bit 16 (ucast a :: 32 word)
      in [enc6 val 18, enc6 val 12, CHR ''='', CHR ''=''])"
| "base64_EncodeToString [a, b] =
     (let val = push_bit 16 (ucast a :: 32 word) OR push_bit 8 (ucast b)
      in [enc6 val 18, enc6 val 12, enc6 val 6, CHR ''=''])"
| "base64_EncodeToString (a # b # c # rest) =
     (let val = push_bit 16 (ucast a :: 32 word) OR push_bit 8 (ucast b) OR ucast c
      in [enc6 val 18, enc6 val 12, enc6 val 6, enc6 val 0] @ base64_EncodeToString rest)"

fun index_of :: "'a \<Rightarrow> 'a list \<Rightarrow> nat option" where
  "index_of x [] = None"
| "index_of x (y # ys) = (if x = y then Some 0 else map_option Suc (index_of x ys))"

definition decodeMap :: "char \<Rightarrow> byte option" where
  \<comment> \<open>the 6-bit value of a character of the alphabet; Go's table holds 0xFF elsewhere\<close>
  "decodeMap c = map_option of_nat (index_of c encodeStd)"

definition assemble :: "byte \<Rightarrow> byte \<Rightarrow> byte \<Rightarrow> byte \<Rightarrow> 32 word" where
  "assemble v0 v1 v2 v3 =
     push_bit 18 (ucast v0) OR push_bit 12 (ucast v1) OR push_bit 6 (ucast v2) OR ucast v3"

text \<open>
  The decoder reads quanta of four characters. Padding is required and may only end the
  input; the bits of the last character that belong to no byte are not checked (the
  encoding is not strict). Every malformed input is \<^verbatim>\<open>CorruptInputError\<close>.
\<close>

fun decode_quanta :: "string \<Rightarrow> lib_error + byte list" where
  "decode_quanta [] = Inr []"
| "decode_quanta (c0 # c1 # c2 # c3 # rest) =
     (case decodeMap c0 of
        None \<Rightarrow> Inl CorruptInputError
      | Some v0 \<Rightarrow>
     (case decodeMap c1 of
        None \<Rightarrow> Inl CorruptInputError
      | Some v1 \<Rightarrow>
         if c2 = CHR ''='' then
           (if c3 = CHR ''='' \<and> rest = []
            then Inr [ucast (drop_bit 16 (assemble v0 v1 0 0))]
            else Inl CorruptInputError)
         else
     (case decodeMap c2 of
        None \<Rightarrow> Inl CorruptInputError
      | Some v2 \<Rightarrow>
         if c3 = CHR ''='' then
           (if rest = []
            then Inr [ucast (drop_bit 16 (assemble v0 v1 v2 0)),
                      ucast (drop_bit 8 (assemble v0 v1 v2 0))]
            else Inl CorruptInputError)
         else
     (case decodeMap c3 of
        None \<Rightarrow> Inl CorruptInputError
      | Some v3 \<Rightarrow>
         (case decode_quanta rest of
            Inl e \<Rightarrow> Inl e
          | Inr bs \<Rightarrow>
              Inr (ucast (drop_bit 16 (assemble v0 v1 v2 v3)) #
                   ucast (drop_bit 8 (assemble v0 v1 v2 v3)) #
                   ucast (assemble v0 v1 v2 v3) # bs))))))"
| "decode_quanta _ = Inl CorruptInputError"

definition base64_DecodeString :: "string \<Rightarrow> lib_error + byte list" where
  \<comment> \<open>carriage returns and line feeds are skipped wherever they stand\<close>
  "base64_DecodeString s = decode_quanta (filter (\<lambda>c. c \<noteq> CHR 0x0A \<and> c \<noteq> CHR 0x0D) s)"

section \<open>strings\<close>

definition strings_ReplaceAll_colon :: "string \<Rightarrow> string" where
  \<comment> \<open>\<^verbatim>\<open>strings.ReplaceAll(s, ":", "")\<close>: every colon is removed\<close>
  "strings_ReplaceAll_colon s = filter (\<lambda>c. c \<noteq> CHR '':'') s"

section \<open>The cryptographic primitives\<close>

text \<open>
  SHA-1 and the arithmetic of Ed25519 are not part of the program: they are the
  parameters of the model. \<open>sha1_Sum\<close> is the digest of a message; \<open>ed_public\<close> is the
  public key of a 32-byte seed; \<open>ed_sign\<close> signs a message with a 64-byte private key
  (seed, then public key); \<open>ed_verify\<close> checks a signature with a 32-byte public key.
  What \<^verbatim>\<open>crypto/ed25519\<close> and \<^verbatim>\<open>uuid\<close> do around them (lengths, panics, copies, the
  version and variant bits) is modelled below.
\<close>

record crypto =
  sha1_Sum :: "byte list \<Rightarrow> byte list"
  ed_public :: "byte list \<Rightarrow> byte list"
  ed_sign :: "byte list \<Rightarrow> byte list \<Rightarrow> byte list"
  ed_verify :: "byte list \<Rightarrow> byte list \<Rightarrow> byte list \<Rightarrow> bool"

definition uuid_NewSHA1 :: "crypto \<Rightarrow> uuid \<Rightarrow> byte list \<Rightarrow> uuid" where
  \<comment> \<open>\<^verbatim>\<open>NewHash(sha1.New(), space, data, 5)\<close>\<close>
  "uuid_NewSHA1 cr space data =
     (let s = sha1_Sum cr (space @ data);
          u = go_copy 16 s;
          u = u[6 := (u ! 6 AND 0x0f) OR 0x50];
          u = u[8 := (u ! 8 AND 0x3f) OR 0x80]
      in u)"

definition ed25519_NewKeyFromSeed :: "crypto \<Rightarrow> byte list \<Rightarrow> byte list result" where
  "ed25519_NewKeyFromSeed cr seed =
     (if length seed \<noteq> 32 then Panic (BadSeedLength (length seed))
      else Ok (go_copy 32 seed @ go_copy 32 (ed_public cr seed)))"

definition PrivateKey_Public :: "byte list \<Rightarrow> byte list result" where
  \<comment> \<open>\<^verbatim>\<open>publicKey := make([]byte, 32); copy(publicKey, priv[32:])\<close>\<close>
  "PrivateKey_Public priv =
     (if length priv < 32 then Panic (SliceBoundsOutOfRange (length priv))
      else Ok (go_copy 32 (drop 32 priv)))"

definition ed25519_Sign :: "crypto \<Rightarrow> byte list \<Rightarrow> byte list \<Rightarrow> byte list result" where
  "ed25519_Sign cr privateKey message =
     (if length privateKey \<noteq> 64 then Panic (BadPrivateKeyLength (length privateKey))
      else Ok (ed_sign cr privateKey message))"

definition ed25519_Verify :: "crypto \<Rightarrow> byte list \<Rightarrow> byte list \<Rightarrow> byte list \<Rightarrow> bool result" where
  "ed25519_Verify cr publicKey message sg =
     (if length publicKey \<noteq> 32 then Panic (BadPublicKeyLength (length publicKey))
      else Ok (ed_verify cr publicKey message sg))"

text \<open>
  The random source is the list of bytes it will deliver; reading more than it holds is
  the failure of the source.
\<close>

definition rand_Read :: "nat \<Rightarrow> byte list \<Rightarrow> (lib_error + byte list) \<times> byte list" where
  "rand_Read n rand =
     (if length rand < n then (Inl RandError, rand) else (Inr (take n rand), drop n rand))"

definition ed25519_GenerateKey ::
  "crypto \<Rightarrow> byte list \<Rightarrow> (lib_error + (byte list \<times> byte list)) result \<times> byte list" where
  "ed25519_GenerateKey cr rand =
     (case rand_Read 32 rand of
        (Inl e, rand') \<Rightarrow> (Ok (Inl e), rand')
      | (Inr seed, rand') \<Rightarrow>
          (case ed25519_NewKeyFromSeed cr seed of
             Panic p \<Rightarrow> (Panic p, rand')
           | Err e \<Rightarrow> (Err e, rand')
           | Ok privateKey \<Rightarrow> (Ok (Inr (go_copy 32 (drop 32 privateKey), privateKey)), rand')))"

definition uuid_NewRandom :: "byte list \<Rightarrow> (lib_error + uuid) \<times> byte list" where
  "uuid_NewRandom rand =
     (case rand_Read 16 rand of
        (Inl e, rand') \<Rightarrow> (Inl e, rand')
      | (Inr bs, rand') \<Rightarrow> (Inr (uuid_NewRandomFromBytes bs), rand'))"

section \<open>The records of main.go\<close>

text \<open>
  \<open>Config\<close> holds the key pair for signing. \<open>LicenseData\<close> is the license record; its
  last three fields are \<^verbatim>\<open>PublicKey\<close>, \<^verbatim>\<open>PrivateKey\<close> and \<^verbatim>\<open>NamespaceID\<close> in the source
  (field names are global in HOL, so they carry a prefix here). \<open>config_file\<close> is the
  anonymous struct that \<^verbatim>\<open>SaveConfig\<close> writes and \<^verbatim>\<open>LoadConfig\<close> reads, with its JSON
  names.
\<close>

record Config =
  PrivateKey :: "byte list"
  PublicKey :: "byte list"
  NamespaceID :: uuid

record LicenseData =
  DeviceID :: string
  DeviceUUID :: string
  LicenseKey :: string
  LicensePublicKey :: string
  LicensePrivateKey :: string
  LicenseNamespaceID :: string

record config_file =
  private_key :: string
  public_key :: string
  namespace_id :: string

section \<open>encoding/json, os and net\<close>

text \<open>
  The JSON codec is a parameter of the model: what \<^verbatim>\<open>json.MarshalIndent\<close> writes for the
  two structs and what \<^verbatim>\<open>json.Unmarshal\<close> reads into them.
\<close>

record json =
  MarshalIndent_config :: "config_file \<Rightarrow> lib_error + string"
  Unmarshal_config :: "string \<Rightarrow> lib_error + config_file"
  MarshalIndent_license :: "LicenseData \<Rightarrow> lib_error + string"
  Unmarshal_license :: "string \<Rightarrow> lib_error + LicenseData"

record interface =
  Name :: string
  HardwareAddr :: "byte list"
  Flags :: "32 word"

text \<open>
  The world outside the process: what \<^verbatim>\<open>os.ReadFile\<close> returns for a file name, whether
  \<^verbatim>\<open>os.MkdirAll\<close> of the file's directory and \<^verbatim>\<open>os.WriteFile\<close> of the file fail, and
  what \<^verbatim>\<open>net.Interfaces\<close> returns. A successful write changes what a later read returns.
\<close>

record world =
  ReadFile :: "string \<Rightarrow> lib_error + string"
  MkdirAll_Dir :: "string \<Rightarrow> lib_error option"
  WriteFile_error :: "string \<Rightarrow> lib_error option"
  Interfaces :: "lib_error + interface list"

definition os_WriteFile :: "world \<Rightarrow> string \<Rightarrow> string \<Rightarrow> lib_error option \<times> world" where
  "os_WriteFile w filename data =
     (case WriteFile_error w filename of
        Some e \<Rightarrow> (Some e, w)
      | None \<Rightarrow> (None, w\<lparr>ReadFile := (ReadFile w)(filename := Inr data)\<rparr>))"

definition FlagUp :: "32 word" where
  "FlagUp = 1"

definition FlagLoopback :: "32 word" where
  "FlagLoopback = 4"

fun HardwareAddr_String :: "byte list \<Rightarrow> string" where
  "HardwareAddr_String [] = []"
| "HardwareAddr_String [b] = hex_EncodeToString [b]"
| "HardwareAddr_String (b # bs) = hex_EncodeToString [b] @ '':'' @ HardwareAddr_String bs"

section \<open>The functions of main.go\<close>

definition SaveConfig :: "json \<Rightarrow> world \<Rightarrow> Config \<Rightarrow> string \<Rightarrow> error option \<times> world" where
  "SaveConfig js w config filename =
     (let data = \<lparr>private_key = hex_EncodeToString (PrivateKey config),
                  public_key = hex_EncodeToString (PublicKey config),
                  namespace_id = uuid_String (NamespaceID config)\<rparr>
      in case MarshalIndent_config js data of
           Inl e \<Rightarrow> (Some (FailedToMarshalConfig e), w)
         | Inr jsonData \<Rightarrow>
            (case MkdirAll_Dir w filename of
               Some e \<Rightarrow> (Some (FailedToCreateDirectory e), w)
             | None \<Rightarrow>
                (case os_WriteFile w filename jsonData of
                   (Some e, w') \<Rightarrow> (Some (WriteFileFailed e), w')
                 | (None, w') \<Rightarrow> (None, w'))))"

definition LoadConfig :: "json \<Rightarrow> world \<Rightarrow> string \<Rightarrow> Config result" where
  "LoadConfig js w filename =
     (case ReadFile w filename of
        Inl e \<Rightarrow> Err (FailedToReadConfigFile e)
      | Inr data \<Rightarrow>
     (case Unmarshal_config js data of
        Inl e \<Rightarrow> Err (FailedToParseConfigFile e)
      | Inr configData \<Rightarrow>
     (case hex_DecodeString (private_key configData) of
        Inl e \<Rightarrow> Err (InvalidPrivateKeyFormat e)
      | Inr privKeyBytes \<Rightarrow>
     (case uuid_Parse (namespace_id configData) of
        Inl e \<Rightarrow> Err (InvalidNamespaceUUID e)
      | Inr namespaceID \<Rightarrow>
     (case PrivateKey_Public privKeyBytes of
        Panic p \<Rightarrow> Panic p
      | Err e \<Rightarrow> Err e
      | Ok pubKey \<Rightarrow>
          Ok \<lparr>PrivateKey = privKeyBytes, PublicKey = pubKey, NamespaceID = namespaceID\<rparr>)))))"

definition GenerateKeyPair :: "crypto \<Rightarrow> byte list \<Rightarrow> Config result \<times> byte list" where
  "GenerateKeyPair cr rand =
     (case ed25519_GenerateKey cr rand of
        (Panic p, rand') \<Rightarrow> (Panic p, rand')
      | (Err e, rand') \<Rightarrow> (Err e, rand')
      | (Ok (Inl e), rand') \<Rightarrow> (Err (FailedToGenerateKeyPair e), rand')
      | (Ok (Inr (pubKey, privKey)), rand') \<Rightarrow>
          (case uuid_NewRandom rand' of
             (Inl e, rand'') \<Rightarrow> (Err (FailedToGenerateNamespaceUUID e), rand'')
           | (Inr namespaceID, rand'') \<Rightarrow>
               (Ok \<lparr>PrivateKey = privKey, PublicKey = pubKey, NamespaceID = namespaceID\<rparr>,
                rand'')))"

definition GetBRLANMacAddress :: "world \<Rightarrow> string result" where
  "GetBRLANMacAddress w =
     (case Interfaces w of
        Inl e \<Rightarrow> Err (FailedToGetNetworkInterfaces e)
      | Inr interfaces \<Rightarrow>
         (case find (\<lambda>iface. Name iface = ''br-lan'') interfaces of
            Some iface \<Rightarrow> Ok (HardwareAddr_String (HardwareAddr iface))
          | None \<Rightarrow>
             (case find (\<lambda>iface. Flags iface AND FlagUp \<noteq> 0 \<and>
                                 Flags iface AND FlagLoopback = 0 \<and>
                                 length (HardwareAddr iface) > 0) interfaces of
                Some iface \<Rightarrow> Ok (HardwareAddr_String (HardwareAddr iface))
              | None \<Rightarrow> Err NoSuitableInterface)))"

definition MacAddressToUUIDv5 :: "crypto \<Rightarrow> string \<Rightarrow> uuid \<Rightarrow> uuid result" where
  "MacAddressToUUIDv5 cr macAddress namespaceID =
     (let macAddress = strings_ReplaceAll_colon macAddress
      in Ok (uuid_NewSHA1 cr namespaceID (bytes_of_string macAddress)))"

definition GenerateLicenseKey :: "crypto \<Rightarrow> Config \<Rightarrow> uuid \<Rightarrow> string result" where
  "GenerateLicenseKey cr config id' =
     (case ed25519_Sign cr (PrivateKey config) id' of
        Panic p \<Rightarrow> Panic p
      | Err e \<Rightarrow> Err e
      | Ok signature \<Rightarrow> Ok (base64_EncodeToString signature))"

definition SaveLicense :: "json \<Rightarrow> world \<Rightarrow> LicenseData \<Rightarrow> string \<Rightarrow> error option \<times> world" where
  "SaveLicense js w licenseData filename =
     (case MarshalIndent_license js licenseData of
        Inl e \<Rightarrow> (Some (FailedToMarshalLicenseData e), w)
      | Inr jsonData \<Rightarrow>
         (case MkdirAll_Dir w filename of
            Some e \<Rightarrow> (Some (FailedToCreateDirectory e), w)
          | None \<Rightarrow>
             (case os_WriteFile w filename jsonData of
                (Some e, w') \<Rightarrow> (Some (WriteFileFailed e), w')
              | (None, w') \<Rightarrow> (None, w'))))"

definition LoadLicense :: "json \<Rightarrow> world \<Rightarrow> string \<Rightarrow> LicenseData result" where
  "LoadLicense js w filename =
     (case ReadFile w filename of
        Inl e \<Rightarrow> Err (FailedToReadLicenseFile e)
      | Inr data \<Rightarrow>
         (case Unmarshal_license js data of
            Inl e \<Rightarrow> Err (FailedToParseLicenseFile e)
          | Inr licenseData \<Rightarrow> Ok licenseData))"

text \<open>
  \<^verbatim>\<open>VerifyLicense\<close> takes the namespace as its fourth parameter and never reads it.
\<close>

definition VerifyLicense :: "crypto \<Rightarrow> string \<Rightarrow> string \<Rightarrow> string \<Rightarrow> string \<Rightarrow> bool result" where
  "VerifyLicense cr publicKeyHex idStr licenseKey namespaceIDStr =
     (case hex_DecodeString publicKeyHex of
        Inl e \<Rightarrow> Err (InvalidPublicKeyFormat e)
      | Inr publicKey \<Rightarrow>
     (case uuid_Parse idStr of
        Inl e \<Rightarrow> Err (InvalidUUIDFormat e)
      | Inr id' \<Rightarrow>
     (case base64_DecodeString licenseKey of
        Inl e \<Rightarrow> Err (InvalidLicenseKeyFormat e)
      | Inr signature \<Rightarrow> ed25519_Verify cr publicKey id' signature)))"

text \<open>
  The two commands that issue and verify. A command prints and returns nothing: its
  result here is what it printed (the error it reported, or its report), the world it
  left, and a crash when a panic ended the process. The flags are parameters; an empty
  \<open>mac\<close> flag means the address is looked up.
\<close>

datatype printed =
    ErrorLoadingConfiguration error
  | ErrorGettingMACAddress error
  | ErrorGeneratingUUID error
  | ErrorGeneratingLicenseKey error
  | ErrorSavingLicense error
  | LicenseGenerated LicenseData
  | ErrorLoadingLicense error
  | ErrorParsingNamespaceUUID lib_error
  | ErrorVerifyingLicense error
  | LicenseVerification string uuid bool
  | Crashed panic

definition commandGenerateLicense ::
  "crypto \<Rightarrow> json \<Rightarrow> world \<Rightarrow> string \<Rightarrow> string \<Rightarrow> string \<Rightarrow> printed \<times> world" where
  "commandGenerateLicense cr js w configFile mac outputFile =
     (case LoadConfig js w configFile of
        Panic p \<Rightarrow> (Crashed p, w)
      | Err e \<Rightarrow> (ErrorLoadingConfiguration e, w)
      | Ok config \<Rightarrow>
     (case (if mac \<noteq> [] then Ok mac else GetBRLANMacAddress w) of
        Panic p \<Rightarrow> (Crashed p, w)
      | Err e \<Rightarrow> (ErrorGettingMACAddress e, w)
      | Ok macAddress \<Rightarrow>
     (case MacAddressToUUIDv5 cr macAddress (NamespaceID config) of
        Panic p \<Rightarrow> (Crashed p, w)
      | Err e \<Rightarrow> (ErrorGeneratingUUID e, w)
      | Ok deviceUUID \<Rightarrow>
     (case GenerateLicenseKey cr config deviceUUID of
        Panic p \<Rightarrow> (Crashed p, w)
      | Err e \<Rightarrow> (ErrorGeneratingLicenseKey e, w)
      | Ok licenseKey \<Rightarrow>
         (let licenseData = \<lparr>DeviceID = macAddress,
                             DeviceUUID = uuid_String deviceUUID,
                             LicenseKey = licenseKey,
                             LicensePublicKey = hex_EncodeToString (PublicKey config),
                             LicensePrivateKey = [],
                             LicenseNamespaceID = uuid_String (NamespaceID config)\<rparr>
          in case SaveLicense js w licenseData outputFile of
               (Some e, w') \<Rightarrow> (ErrorSavingLicense e, w')
             | (None, w') \<Rightarrow> (LicenseGenerated licenseData, w'))))))"

definition commandVerifyLicense :: "crypto \<Rightarrow> json \<Rightarrow> world \<Rightarrow> string \<Rightarrow> string \<Rightarrow> printed" where
  "commandVerifyLicense cr js w licenseFile mac =
     (case LoadLicense js w licenseFile of
        Panic p \<Rightarrow> Crashed p
      | Err e \<Rightarrow> ErrorLoadingLicense e
      | Ok licenseData \<Rightarrow>
     (case (if mac \<noteq> [] then Ok mac else GetBRLANMacAddress w) of
        Panic p \<Rightarrow> Crashed p
      | Err e \<Rightarrow> ErrorGettingMACAddress e
      | Ok macAddress \<Rightarrow>
     (case uuid_Parse (LicenseNamespaceID licenseData) of
        Inl e \<Rightarrow> ErrorParsingNamespaceUUID e
      | Inr namespaceID \<Rightarrow>
     (case MacAddressToUUIDv5 cr macAddress namespaceID of
        Panic p \<Rightarrow> Crashed p
      | Err e \<Rightarrow> ErrorGeneratingUUID e
      | Ok deviceUUID \<Rightarrow>
     (case VerifyLicense cr (LicensePublicKey licenseData) (uuid_String deviceUUID)
             (LicenseKey licenseData) (LicenseNamespaceID licenseData) of
        Panic p \<Rightarrow> Crashed p
      | Err e \<Rightarrow> ErrorVerifyingLicense e
      | Ok valid \<Rightarrow> LicenseVerification macAddress deviceUUID valid)))))"

section \<open>What the claims speak of\<close>

text \<open>
  The correctness of the signature scheme, as \<^verbatim>\<open>crypto/ed25519\<close> documents it: the public
  key of a 32-byte seed has 32 bytes, and a signature made with the private key of a seed
  (the seed, then its public key) verifies under that public key.
\<close>

definition ed25519_correct :: "crypto \<Rightarrow> bool" where
  "ed25519_correct cr =
     (\<forall>seed msg. length seed = 32 \<longrightarrow>
        length (ed_public cr seed) = 32 \<and>
        ed_verify cr (ed_public cr seed) msg (ed_sign cr (seed @ ed_public cr seed) msg))"



definition reads_back :: "json \<Rightarrow> config_file \<Rightarrow> bool" where
  \<comment> \<open>\<^verbatim>\<open>json.Unmarshal\<close> reads back the text that \<^verbatim>\<open>json.MarshalIndent\<close> writes for d\<close>
  "reads_back js d = (\<forall>s. MarshalIndent_config js d = Inr s \<longrightarrow> Unmarshal_config js s = Inr d)"

section \<open>An instance of the parameters\<close>

text \<open>
  To evaluate the model on concrete inputs the parameters need values. \<open>demo_crypto\<close> has
  the interface of the primitives and is correct in the sense of \<open>ed25519_correct\<close>; it is
  neither SHA-1 nor Ed25519 and has no security. \<open>demo_json\<close> writes a struct of strings
  in the layout of \<^verbatim>\<open>json.MarshalIndent(v, "", "  ")\<close> and reads that layout back; it
  agrees with \<^verbatim>\<open>encoding/json\<close> on strings that need no escaping.
\<close>

definition demo_crypto :: crypto where
  "demo_crypto =
     \<lparr>sha1_Sum = (\<lambda>m. replicate 20 (sum_list m)),
      ed_public = map (\<lambda>b. b + 1),
      ed_sign = (\<lambda>priv msg. drop 32 priv @ go_copy 32 msg),
      ed_verify = (\<lambda>pub msg sg. sg = pub @ go_copy 32 msg)\<rparr>"

definition dq :: char where
  "dq = CHR 0x22"

definition nl :: char where
  "nl = CHR 0x0A"

fun write_fields :: "(string \<times> string) list \<Rightarrow> string" where
  "write_fields [] = []"
| "write_fields [(k, v)] = ''  '' @ [dq] @ k @ [dq] @ '': '' @ [dq] @ v @ [dq] @ [nl]"
| "write_fields ((k, v) # kvs) =
     ''  '' @ [dq] @ k @ [dq] @ '': '' @ [dq] @ v @ [dq] @ '','' @ [nl] @ write_fields kvs"

definition write_object :: "(string \<times> string) list \<Rightarrow> string" where
  "write_object kvs = ''{'' @ [nl] @ write_fields kvs @ ''}''"

fun strip_prefix :: "string \<Rightarrow> string \<Rightarrow> string option" where
  "strip_prefix [] s = Some s"
| "strip_prefix (p # ps) [] = None"
| "strip_prefix (p # ps) (c # cs) = (if p = c then strip_prefix ps cs else None)"

definition read_quoted :: "string \<Rightarrow> (string \<times> string) option" where
  "read_quoted s =
     (case s of
        [] \<Rightarrow> None
      | c # r \<Rightarrow>
          if c \<noteq> dq then None
          else (case dropWhile (\<lambda>x. x \<noteq> dq) r of
                  [] \<Rightarrow> None
                | _ # r' \<Rightarrow> Some (takeWhile (\<lambda>x. x \<noteq> dq) r, r')))"

fun read_fields :: "nat \<Rightarrow> string \<Rightarrow> (string \<times> string) list option" where
  "read_fields 0 s = None"
| "read_fields (Suc n) s =
     (case strip_prefix ''  '' s of
        None \<Rightarrow> None
      | Some s1 \<Rightarrow>
     (case read_quoted s1 of
        None \<Rightarrow> None
      | Some (k, s2) \<Rightarrow>
     (case strip_prefix '': '' s2 of
        None \<Rightarrow> None
      | Some s3 \<Rightarrow>
     (case read_quoted s3 of
        None \<Rightarrow> None
      | Some (v, s4) \<Rightarrow>
          if s4 = [nl] @ ''}'' then Some [(k, v)]
          else (case strip_prefix ('','' @ [nl]) s4 of
                  None \<Rightarrow> None
                | Some s5 \<Rightarrow> map_option ((#) (k, v)) (read_fields n s5))))))"

definition read_object :: "string \<Rightarrow> lib_error + (string \<times> string) list" where
  "read_object s =
     (case strip_prefix (''{'' @ [nl]) s of
        None \<Rightarrow> Inl (JSONError ''unexpected input'')
      | Some r \<Rightarrow>
          (case read_fields (length r) r of
             None \<Rightarrow> Inl (JSONError ''unexpected input'')
           | Some kvs \<Rightarrow> Inr kvs))"

definition field :: "(string \<times> string) list \<Rightarrow> string \<Rightarrow> string" where
  \<comment> \<open>a field the text does not name keeps the zero value, the empty string\<close>
  "field kvs k = (case map_of kvs k of None \<Rightarrow> [] | Some v \<Rightarrow> v)"

definition demo_json :: json where
  "demo_json =
     \<lparr>MarshalIndent_config = (\<lambda>d. Inr (write_object
          [(''private_key'', private_key d),
           (''public_key'', public_key d),
           (''namespace_id'', namespace_id d)])),
      Unmarshal_config = (\<lambda>s. case read_object s of
          Inl e \<Rightarrow> Inl e
        | Inr kvs \<Rightarrow> Inr \<lparr>private_key = field kvs ''private_key'',
                          public_key = field kvs ''public_key'',
                          namespace_id = field kvs ''namespace_id''\<rparr>),
      MarshalIndent_license = (\<lambda>d. Inr (write_object
          ([(''device_id'', DeviceID d),
            (''device_uuid'', DeviceUUID d),
            (''license_key'', LicenseKey d),
            (''public_key'', LicensePublicKey d)] @
           (if LicensePrivateKey d = [] then [] else [(''private_key'', LicensePrivateKey d)]) @
           [(''namespace_id'', LicenseNamespaceID d)]))),
      Unmarshal_license = (\<lambda>s. case read_object s of
          Inl e \<Rightarrow> Inl e
        | Inr kvs \<Rightarrow> Inr \<lparr>DeviceID = field kvs ''device_id'',
                          DeviceUUID = field kvs ''device_uuid'',
                          LicenseKey = field kvs ''license_key'',
                          LicensePublicKey = field kvs ''public_key'',
                          LicensePrivateKey = field kvs ''private_key'',
                          LicenseNamespaceID = field kvs ''namespace_id''\<rparr>)\<rparr>"

definition demo_world :: world where
  \<comment> \<open>no file yet, every write succeeds, one interface \<open>br-lan\<close>\<close>
  "demo_world =
     \<lparr>ReadFile = (\<lambda>_. Inl (OSError ''no such file or directory'')),
      MkdirAll_Dir = (\<lambda>_. None),
      WriteFile_error = (\<lambda>_. None),
      Interfaces = Inr [\<lparr>Name = ''br-lan'',
                         HardwareAddr = [0xAA, 0xBB, 0xCC, 0xDD, 0xEE, 0xFF],
                         Flags = 1\<rparr>]\<rparr>"

definition demo_rand :: "byte list" where
  "demo_rand = replicate 32 1 @ replicate 16 3"

definition demo_config :: Config where
  \<comment> \<open>the key pair that \<open>GenerateKeyPair demo_crypto demo_rand\<close> returns\<close>
  "demo_config =
     \<lparr>PrivateKey = replicate 32 1 @ replicate 32 2,
      PublicKey = replicate 32 2,
      NamespaceID = [3, 3, 3, 3, 3, 3, 0x43, 3, 0x83, 3, 3, 3, 3, 3, 3, 3]\<rparr>"

text \<open>The texts, files and records of the concrete inputs used below.\<close>

definition demo_private_hex :: string where
  "demo_private_hex =
     ''0101010101010101010101010101010101010101010101010101010101010101'' @
     ''0202020202020202020202020202020202020202020202020202020202020202''"

definition demo_public_hex :: string where
  "demo_public_hex = ''0202020202020202020202020202020202020202020202020202020202020202''"

definition demo_namespace :: string where
  "demo_namespace = ''03030303-0303-4303-8303-030303030303''"

definition demo_config_text :: string where
  \<comment> \<open>what \<open>SaveConfig\<close> writes for \<open>demo_config\<close>\<close>
  "demo_config_text = write_object
     [(''private_key'', demo_private_hex),
      (''public_key'', demo_public_hex),
      (''namespace_id'', demo_namespace)]"

definition tampered_config_text :: string where
  \<comment> \<open>the same record with another public key\<close>
  "tampered_config_text = write_object
     [(''private_key'', demo_private_hex),
      (''public_key'', ''ffffffffffffffffffffffffffffffffffffffffffffffffffffffffffffffff''),
      (''namespace_id'', demo_namespace)]"

definition saved_world :: world where
  "saved_world =
     demo_world\<lparr>ReadFile := (ReadFile demo_world)(''licensor.json'' := Inr demo_config_text)\<rparr>"

definition tampered_world :: world where
  "tampered_world =
     demo_world\<lparr>ReadFile := (ReadFile demo_world)(''licensor.json'' := Inr tampered_config_text)\<rparr>"

definition demo_license_key :: string where
  "demo_license_key =
     ''AgICAgICAgICAgICAgICAgICAgICAgICAgICAgICAgIaGhoaGhpaGpoaGhoaGhoaAAAAAAAAAAAAAAAAAAAAAA==''"

definition demo_device_uuid :: string where
  "demo_device_uuid = ''1a1a1a1a-1a1a-5a1a-9a1a-1a1a1a1a1a1a''"

definition demo_license :: LicenseData where
  \<comment> \<open>the record that \<open>commandGenerateLicense\<close> writes for \<open>demo_config\<close> and \<open>AA:BB:CC:DD:EE:FF\<close>\<close>
  "demo_license =
     \<lparr>DeviceID = ''AA:BB:CC:DD:EE:FF'',
      DeviceUUID = demo_device_uuid,
      LicenseKey = demo_license_key,
      LicensePublicKey = demo_public_hex,
      LicensePrivateKey = [],
      LicenseNamespaceID = demo_namespace\<rparr>"

definition license_text :: "string \<Rightarrow> string" where
  \<comment> \<open>the license file of \<open>demo_license\<close> with a given \<open>device_uuid\<close> field\<close>
  "license_text stored = write_object
     [(''device_id'', ''AA:BB:CC:DD:EE:FF''),
      (''device_uuid'', stored),
      (''license_key'', demo_license_key),
      (''public_key'', demo_public_hex),
      (''namespace_id'', demo_namespace)]"

definition licensed_world :: "string \<Rightarrow> world" where
  "licensed_world stored =
     demo_world\<lparr>ReadFile := (ReadFile demo_world)(''license.json'' := Inr (license_text stored))\<rparr>"

section \<open>Hexadecimal text and UUID text read back what they wrote\<close>

lemma byte_bit_less: "bit (b::byte) n \<Longrightarrow> n < 8"
  by (auto dest: bit_imp_le_length)

lemma mask4_byte: "(0x0f::byte) = mask 4"
  by (simp add: mask_eq_exp_minus_1)

lemma mask6_word: "(0x3F::32 word) = mask 6"
  by (simp add: mask_eq_exp_minus_1)

lemma unat_low_nibble: "unat (v AND 0x0f :: byte) < 16"
proof -
  have "unat (take_bit 4 v) = take_bit 4 (unat v)"
    by (rule unsigned_take_bit_eq)
  then have "unat (take_bit 4 v) < 16"
    by (simp only: take_bit_eq_mod) simp
  then show ?thesis
    by (simp only: mask4_byte take_bit_eq_mask)
qed

lemma unat_high_nibble: "unat (drop_bit 4 (v::byte)) < 16"
proof -
  have "unat v < 256" using unsigned_less [of v] by simp
  then have "unat v div 16 < 16" by arith
  moreover have "unat (drop_bit 4 v) = drop_bit 4 (unat v)"
    by (rule unat_drop_bit_eq)
  moreover have "drop_bit 4 (unat v) = unat v div 16"
    by (simp add: drop_bit_eq_div)
  ultimately show ?thesis by presburger
qed

lemma nibbles_join: "push_bit 4 (drop_bit 4 v) OR (v AND 0x0f) = (v::byte)"
  unfolding mask4_byte
  by (rule bit_word_eqI) (auto simp: bit_simps)

lemma fromHexChar_hextable: "n < 16 \<Longrightarrow> fromHexChar (hextable ! n) = Some (of_nat n)"
proof -
  assume "n < 16"
  then have "n \<in> set [0..<16]" by simp
  moreover have "\<forall>n\<in>set [0..<16]. fromHexChar (hextable ! n) = Some (of_nat n)"
    by (simp add: upt_rec fromHexChar_def hextable_def)
  ultimately show ?thesis by blast
qed

lemma xtob_hex:
  "xtob (hextable ! unat (drop_bit 4 v)) (hextable ! unat (v AND 0x0f)) = Some v"
  by (simp add: xtob_def fromHexChar_hextable unat_low_nibble unat_high_nibble nibbles_join)

lemma hex_roundtrip: "hex_DecodeString (hex_EncodeToString bs) = Inr bs"
  by (induction bs)
     (simp_all add: hex_EncodeToString_def fromHexChar_hextable unat_low_nibble
        unat_high_nibble nibbles_join)

lemma length_16_cases:
  "length (u::'a list) = 16 \<Longrightarrow>
   \<exists>b0 b1 b2 b3 b4 b5 b6 b7 b8 b9 b10 b11 b12 b13 b14 b15.
     u = [b0, b1, b2, b3, b4, b5, b6, b7, b8, b9, b10, b11, b12, b13, b14, b15]"
  by (simp add: numeral_eq_Suc length_Suc_conv) blast

lemma uuid_roundtrip_explicit:
  "uuid_Parse (uuid_String [b0, b1, b2, b3, b4, b5, b6, b7, b8, b9, b10, b11, b12, b13, b14, b15])
   = Inr [b0, b1, b2, b3, b4, b5, b6, b7, b8, b9, b10, b11, b12, b13, b14, b15]"
  by (simp add: uuid_Parse_def uuid_String_def parse_hyphenated_def uuid_offsets_def
        hex_EncodeToString_def xtob_hex)

lemma uuid_roundtrip: "length u = 16 \<Longrightarrow> uuid_Parse (uuid_String u) = Inr u"
  using length_16_cases [of u] uuid_roundtrip_explicit by auto

section \<open>Base64 reads back what it wrote\<close>

lemma distinct_encodeStd: "distinct encodeStd"
  by (simp add: encodeStd_def)

lemma length_encodeStd: "length encodeStd = 64"
  by (simp add: encodeStd_def)

lemma index_of_nth: "distinct xs \<Longrightarrow> n < length xs \<Longrightarrow> index_of (xs ! n) xs = Some n"
proof (induction xs arbitrary: n)
  case Nil
  then show ?case by simp
next
  case (Cons x xs)
  then show ?case by (cases n) auto
qed


lemma unat_six_bits: "unat (drop_bit sh (val :: 32 word) AND 0x3F) < 64"
proof -
  have "unat (take_bit 6 (drop_bit sh val)) = take_bit 6 (unat (drop_bit sh val))"
    by (rule unsigned_take_bit_eq)
  then have "unat (take_bit 6 (drop_bit sh val)) < 64"
    by (simp only: take_bit_eq_mod) simp
  then show ?thesis
    by (simp only: mask6_word take_bit_eq_mask)
qed

lemma decodeMap_enc6:
  "decodeMap (enc6 val sh) = Some (ucast (drop_bit sh val AND 0x3F))"
  by (simp add: decodeMap_def enc6_def index_of_nth distinct_encodeStd length_encodeStd
        unat_six_bits)

lemma enc6_mem: "enc6 val sh \<in> set encodeStd"
  unfolding enc6_def by (rule nth_mem) (simp add: length_encodeStd unat_six_bits)

lemma enc6_not_pad: "enc6 val sh \<noteq> CHR ''=''"
  using enc6_mem [of val sh] by (auto simp: encodeStd_def)

lemma enc6_not_newline: "enc6 val sh \<noteq> CHR 0x0A \<and> enc6 val sh \<noteq> CHR 0x0D"
  using enc6_mem [of val sh] by (auto simp: encodeStd_def)

lemma quantum_three:
  fixes a b c :: byte
  defines "val \<equiv> push_bit 16 (ucast a :: 32 word) OR push_bit 8 (ucast b) OR ucast c"
  defines "w \<equiv> assemble (ucast (drop_bit 18 val AND 0x3F)) (ucast (drop_bit 12 val AND 0x3F))
                  (ucast (drop_bit 6 val AND 0x3F)) (ucast (drop_bit 0 val AND 0x3F))"
  shows "ucast (drop_bit 16 w) = a" and "ucast (drop_bit 8 w) = b" and "ucast w = c"
proof -
  have w: "w = val"
    unfolding w_def val_def assemble_def mask6_word
  proof (rule bit_word_eqI)
    fix n assume "n < LENGTH(32)"
    have "n < 6 \<or> (6 \<le> n \<and> n < 12) \<or> (12 \<le> n \<and> n < 18) \<or> (18 \<le> n \<and> n < 24) \<or> 24 \<le> n"
      by arith
    then show "bit (push_bit 18 (ucast (ucast (drop_bit 18 (push_bit 16 (ucast a :: 32 word) OR push_bit 8 (ucast b) OR ucast c) AND mask 6) :: byte)) OR
            push_bit 12 (ucast (ucast (drop_bit 12 (push_bit 16 (ucast a :: 32 word) OR push_bit 8 (ucast b) OR ucast c) AND mask 6) :: byte)) OR
            push_bit 6 (ucast (ucast (drop_bit 6 (push_bit 16 (ucast a :: 32 word) OR push_bit 8 (ucast b) OR ucast c) AND mask 6) :: byte)) OR
            ucast (ucast (drop_bit 0 (push_bit 16 (ucast a :: 32 word) OR push_bit 8 (ucast b) OR ucast c) AND mask 6) :: byte) :: 32 word) n
        = bit (push_bit 16 (ucast a :: 32 word) OR push_bit 8 (ucast b) OR ucast c) n"
      by (elim disjE) (auto simp: bit_simps dest: byte_bit_less)
  qed
  show "ucast (drop_bit 16 w) = a"
    unfolding w val_def by (rule bit_word_eqI) (auto simp: bit_simps dest: byte_bit_less)
  show "ucast (drop_bit 8 w) = b"
    unfolding w val_def by (rule bit_word_eqI) (auto simp: bit_simps dest: byte_bit_less)
  show "ucast w = c"
    unfolding w val_def by (rule bit_word_eqI) (auto simp: bit_simps dest: byte_bit_less)
qed

lemma quantum_one:
  fixes a :: byte
  defines "val \<equiv> push_bit 16 (ucast a :: 32 word)"
  shows "ucast (drop_bit 16 (assemble (ucast (drop_bit 18 val AND 0x3F))
            (ucast (drop_bit 12 val AND 0x3F)) 0 0)) = a"
  unfolding val_def assemble_def mask6_word
proof (rule bit_word_eqI)
  fix n assume "n < LENGTH(8)"
  then have "n < 2 \<or> (2 \<le> n \<and> n < 8)" by auto
  then show "bit (ucast (drop_bit 16 (push_bit 18 (ucast (ucast (drop_bit 18 (push_bit 16 (ucast a :: 32 word)) AND mask 6) :: byte)) OR
        push_bit 12 (ucast (ucast (drop_bit 12 (push_bit 16 (ucast a :: 32 word)) AND mask 6) :: byte)) OR
        push_bit 6 (ucast (0::byte)) OR ucast (0::byte) :: 32 word)) :: byte) n = bit a n"
    by (elim disjE) (auto simp: bit_simps dest: byte_bit_less)
qed

lemma quantum_two:
  fixes a b :: byte
  defines "val \<equiv> push_bit 16 (ucast a :: 32 word) OR push_bit 8 (ucast b)"
  defines "w \<equiv> assemble (ucast (drop_bit 18 val AND 0x3F)) (ucast (drop_bit 12 val AND 0x3F))
                  (ucast (drop_bit 6 val AND 0x3F)) 0"
  shows "ucast (drop_bit 16 w) = a" and "ucast (drop_bit 8 w) = b"
proof -
  have w: "w = val"
    unfolding w_def val_def assemble_def mask6_word
  proof (rule bit_word_eqI)
    fix n assume "n < LENGTH(32)"
    have "n < 6 \<or> (6 \<le> n \<and> n < 12) \<or> (12 \<le> n \<and> n < 18) \<or> (18 \<le> n \<and> n < 24) \<or> 24 \<le> n"
      by arith
    then show "bit (push_bit 18 (ucast (ucast (drop_bit 18 (push_bit 16 (ucast a :: 32 word) OR push_bit 8 (ucast b)) AND mask 6) :: byte)) OR
            push_bit 12 (ucast (ucast (drop_bit 12 (push_bit 16 (ucast a :: 32 word) OR push_bit 8 (ucast b)) AND mask 6) :: byte)) OR
            push_bit 6 (ucast (ucast (drop_bit 6 (push_bit 16 (ucast a :: 32 word) OR push_bit 8 (ucast b)) AND mask 6) :: byte)) OR
            ucast (0::byte) :: 32 word) n
        = bit (push_bit 16 (ucast a :: 32 word) OR push_bit 8 (ucast b)) n"
      by (elim disjE) (auto simp: bit_simps dest: byte_bit_less)
  qed
  show "ucast (drop_bit 16 w) = a"
    unfolding w val_def by (rule bit_word_eqI) (auto simp: bit_simps dest: byte_bit_less)
  show "ucast (drop_bit 8 w) = b"
    unfolding w val_def by (rule bit_word_eqI) (auto simp: bit_simps dest: byte_bit_less)
qed

lemma decode_quanta_encode: "decode_quanta (base64_EncodeToString bs) = Inr bs"
proof (induction bs rule: base64_EncodeToString.induct)
  case 1
  then show ?case by simp
next
  case (2 a)
  show ?case
    using quantum_one [of a]
    by (simp only: base64_EncodeToString.simps decode_quanta.simps Let_def decodeMap_enc6
          option.case if_True simp_thms)
next
  case (3 a b)
  show ?case
    using quantum_two [of a b]
    by (simp only: base64_EncodeToString.simps decode_quanta.simps Let_def decodeMap_enc6
          option.case if_True if_False enc6_not_pad simp_thms)
next
  case (4 a b c rest)
  show ?case
    using quantum_three [of a b c] 4
    by (simp only: base64_EncodeToString.simps decode_quanta.simps Let_def decodeMap_enc6
          option.case sum.case if_True if_False enc6_not_pad simp_thms append.simps)
qed

lemma base64_chars: "c \<in> set (base64_EncodeToString bs) \<Longrightarrow> c \<noteq> CHR 0x0A \<and> c \<noteq> CHR 0x0D"
proof (induction bs rule: base64_EncodeToString.induct)
  case 1
  then show ?case by simp
next
  case (2 a)
  then show ?case using enc6_not_newline by (auto simp: Let_def)
next
  case (3 a b)
  then show ?case using enc6_not_newline by (auto simp: Let_def)
next
  case (4 a b c rest)
  then show ?case using enc6_not_newline by (auto simp: Let_def)
qed

lemma base64_roundtrip: "base64_DecodeString (base64_EncodeToString bs) = Inr bs"
proof -
  have "filter (\<lambda>c. c \<noteq> CHR 0x0A \<and> c \<noteq> CHR 0x0D) (base64_EncodeToString bs)
        = base64_EncodeToString bs"
    by (rule filter_True) (use base64_chars in blast)
  then show ?thesis
    by (simp add: base64_DecodeString_def decode_quanta_encode)
qed

section \<open>Lengths, and what a generated key pair is\<close>

lemma length_go_copy: "length (go_copy n src) = n"
  by (simp add: go_copy_def)

lemma go_copy_same_length: "length src = n \<Longrightarrow> go_copy n src = src"
  by (simp add: go_copy_def)

lemma length_uuid_NewSHA1: "length (uuid_NewSHA1 cr space data) = 16"
  by (simp add: uuid_NewSHA1_def Let_def length_go_copy)

lemma length_uuid_NewRandomFromBytes: "length (uuid_NewRandomFromBytes bs) = 16"
  by (simp add: uuid_NewRandomFromBytes_def Let_def length_go_copy)

lemma GenerateKeyPair_Ok:
  assumes "GenerateKeyPair cr rand = (Ok k, rand')"
  shows "\<exists>seed. length seed = 32 \<and>
           PrivateKey k = seed @ go_copy 32 (ed_public cr seed) \<and>
           PublicKey k = go_copy 32 (ed_public cr seed) \<and>
           length (NamespaceID k) = 16"
proof -
  from assms have long: "\<not> length rand < 32"
    by (auto simp: GenerateKeyPair_def ed25519_GenerateKey_def rand_Read_def
          split: if_splits)
  define seed where "seed = take 32 rand"
  have len: "length seed = 32" using long by (simp add: seed_def)
  from assms long len show ?thesis
    by (intro exI [of _ seed])
       (auto simp: GenerateKeyPair_def ed25519_GenerateKey_def rand_Read_def
          ed25519_NewKeyFromSeed_def uuid_NewRandom_def seed_def go_copy_same_length
          length_go_copy length_uuid_NewRandomFromBytes
          split: if_splits prod.splits sum.splits result.splits)
qed

lemma demo_crypto_correct: "ed25519_correct demo_crypto"
  by (simp add: ed25519_correct_def demo_crypto_def)

lemma demo_generated: "GenerateKeyPair demo_crypto demo_rand = (Ok demo_config, [])"
  by code_simp

section \<open>Issuing and verifying\<close>

text \<open>
  Claim C1. For every key pair k that \<open>GenerateKeyPair\<close> returns and every raw identifier
  r: deriving the device identity from r under the namespace of k, signing its 16 bytes
  with the private key of k and encoding the signature in base64 gives a license key, and
  \<open>VerifyLicense\<close> with the hex text of the public key of k, the text of that identity and
  that license key returns true. The signature scheme is assumed correct.
\<close>

theorem issue_then_verify:
  assumes correct: "ed25519_correct cr"
    and generated: "GenerateKeyPair cr rand = (Ok k, rand')"
  shows "\<exists>deviceUUID licenseKey.
           MacAddressToUUIDv5 cr r (NamespaceID k) = Ok deviceUUID \<and>
           GenerateLicenseKey cr k deviceUUID = Ok licenseKey \<and>
           VerifyLicense cr (hex_EncodeToString (PublicKey k)) (uuid_String deviceUUID)
             licenseKey (uuid_String (NamespaceID k)) = Ok True"
proof -
  from GenerateKeyPair_Ok [OF generated] obtain seed where
    seed: "length seed = 32"
    and priv: "PrivateKey k = seed @ go_copy 32 (ed_public cr seed)"
    and pub: "PublicKey k = go_copy 32 (ed_public cr seed)"
    by blast
  from correct seed have publen: "length (ed_public cr seed) = 32"
    by (simp add: ed25519_correct_def)
  then have copy: "go_copy 32 (ed_public cr seed) = ed_public cr seed"
    by (rule go_copy_same_length)
  define deviceUUID where
    "deviceUUID = uuid_NewSHA1 cr (NamespaceID k) (bytes_of_string (strings_ReplaceAll_colon r))"
  define sg where "sg = ed_sign cr (PrivateKey k) deviceUUID"
  have derive: "MacAddressToUUIDv5 cr r (NamespaceID k) = Ok deviceUUID"
    by (simp add: MacAddressToUUIDv5_def deviceUUID_def)
  have issue: "GenerateLicenseKey cr k deviceUUID = Ok (base64_EncodeToString sg)"
    using seed publen by (simp add: GenerateLicenseKey_def ed25519_Sign_def priv copy sg_def)
  have parse: "uuid_Parse (uuid_String deviceUUID) = Inr deviceUUID"
    by (rule uuid_roundtrip) (simp add: deviceUUID_def length_uuid_NewSHA1)
  have good: "ed_verify cr (PublicKey k) deviceUUID sg"
    using correct seed by (simp add: ed25519_correct_def sg_def priv pub copy)
  have "VerifyLicense cr (hex_EncodeToString (PublicKey k)) (uuid_String deviceUUID)
          (base64_EncodeToString sg) (uuid_String (NamespaceID k)) = Ok True"
    using good publen
    by (simp add: VerifyLicense_def hex_roundtrip parse base64_roundtrip ed25519_Verify_def
          pub copy)
  with derive issue show ?thesis by blast
qed

theorem issue_then_verify_witness:
  "ed25519_correct demo_crypto \<and>
   GenerateKeyPair demo_crypto demo_rand = (Ok demo_config, []) \<and>
   (\<exists>deviceUUID licenseKey.
      MacAddressToUUIDv5 demo_crypto ''AA:BB:CC:DD:EE:FF'' (NamespaceID demo_config) = Ok deviceUUID \<and>
      GenerateLicenseKey demo_crypto demo_config deviceUUID = Ok licenseKey \<and>
      VerifyLicense demo_crypto (hex_EncodeToString (PublicKey demo_config))
        (uuid_String deviceUUID) licenseKey (uuid_String (NamespaceID demo_config)) = Ok True)"
  using issue_then_verify [OF demo_crypto_correct demo_generated, of "''AA:BB:CC:DD:EE:FF''"]
    demo_crypto_correct demo_generated
  by blast

text \<open>
  Claim C9. The result of \<open>VerifyLicense\<close> does not depend on its namespace argument: two
  calls that differ only in \<open>namespaceIDStr\<close> return the same result.
\<close>

theorem VerifyLicense_ignores_namespace:
  "VerifyLicense cr publicKeyHex idStr licenseKey namespaceIDStr
   = VerifyLicense cr publicKeyHex idStr licenseKey namespaceIDStr'"
  by (simp add: VerifyLicense_def)

section \<open>Deriving the identity\<close>

text \<open>
  Claim C8. \<open>MacAddressToUUIDv5\<close> is total: for every string and every namespace it returns
  a 16-byte identity, never an error or a panic. It is a function of its inputs, so equal
  inputs give equal identities. The colons are removed before hashing: the identity of r is
  the version-5 UUID of r without its colons, so r and r without colons have the same
  identity, and \<open>AA:BB:CC:DD:EE:FF\<close> and \<open>AABBCCDDEEFF\<close> do under every namespace.
\<close>

theorem MacAddressToUUIDv5_total:
  "(\<exists>u. MacAddressToUUIDv5 cr r ns = Ok u \<and> length u = 16) \<and>
   MacAddressToUUIDv5 cr r ns
     = Ok (uuid_NewSHA1 cr ns (bytes_of_string (filter (\<lambda>c. c \<noteq> CHR '':'') r))) \<and>
   MacAddressToUUIDv5 cr r ns = MacAddressToUUIDv5 cr (filter (\<lambda>c. c \<noteq> CHR '':'') r) ns \<and>
   MacAddressToUUIDv5 cr ''AA:BB:CC:DD:EE:FF'' ns = MacAddressToUUIDv5 cr ''AABBCCDDEEFF'' ns"
  by (simp add: MacAddressToUUIDv5_def strings_ReplaceAll_colon_def length_uuid_NewSHA1)

section \<open>The outcomes of verification\<close>

lemma VerifyLicense_bad_hex:
  "hex_DecodeString publicKeyHex = Inl e \<Longrightarrow>
   VerifyLicense cr publicKeyHex idStr licenseKey ns = Err (InvalidPublicKeyFormat e)"
  by (simp add: VerifyLicense_def)

lemma VerifyLicense_wrong_length:
  "hex_DecodeString publicKeyHex = Inr publicKey \<Longrightarrow> length publicKey \<noteq> 32 \<Longrightarrow>
   uuid_Parse idStr = Inr u \<Longrightarrow> base64_DecodeString licenseKey = Inr sg \<Longrightarrow>
   VerifyLicense cr publicKeyHex idStr licenseKey ns = Panic (BadPublicKeyLength (length publicKey))"
  by (simp add: VerifyLicense_def ed25519_Verify_def)

lemma VerifyLicense_Ok_True:
  assumes "VerifyLicense cr publicKeyHex idStr licenseKey ns = Ok True"
  shows "\<exists>publicKey u sg. hex_DecodeString publicKeyHex = Inr publicKey \<and> length publicKey = 32 \<and>
           uuid_Parse idStr = Inr u \<and> base64_DecodeString licenseKey = Inr sg \<and>
           ed_verify cr publicKey u sg"
  using assms
  by (auto simp: VerifyLicense_def ed25519_Verify_def split: sum.splits if_splits)

text \<open>
  Claim C7. On a well-formed input (the public key is the hex text of a 32-byte key, the
  identity is a UUID text, the license key is valid base64) whose signature does not
  match, \<open>VerifyLicense\<close> returns false and no error. On every input whose license key is
  not valid base64 it returns an error of kind \<open>FormatError\<close>, whatever the other fields.
\<close>

theorem VerifyLicense_mismatch_false_bad_base64_error:
  "(hex_DecodeString publicKeyHex = Inr publicKey \<and> length publicKey = 32 \<and>
    uuid_Parse idStr = Inr u \<and> base64_DecodeString licenseKey = Inr sg \<and>
    \<not> ed_verify cr publicKey u sg
    \<longrightarrow> VerifyLicense cr publicKeyHex idStr licenseKey ns = Ok False) \<and>
   (base64_DecodeString licenseKey' = Inl e
    \<longrightarrow> (\<exists>e'. VerifyLicense cr publicKeyHex' idStr' licenseKey' ns' = Err e' \<and>
              kind_of e' = FormatError))"
  by (auto simp: VerifyLicense_def ed25519_Verify_def split: sum.splits)

lemma demo_public_hex_decoded: "hex_DecodeString demo_public_hex = Inr (replicate 32 2)"
  by code_simp

lemma other_uuid_parsed:
  "uuid_Parse ''19191919-1919-5919-9919-191919191919''
   = Inr [0x19, 0x19, 0x19, 0x19, 0x19, 0x19, 0x59, 0x19, 0x99, 0x19, 0x19, 0x19, 0x19, 0x19, 0x19, 0x19]"
  by code_simp

lemma demo_license_key_decoded:
  "base64_DecodeString demo_license_key
   = Inr (replicate 32 2 @
          [0x1a, 0x1a, 0x1a, 0x1a, 0x1a, 0x1a, 0x5a, 0x1a, 0x9a, 0x1a, 0x1a, 0x1a, 0x1a, 0x1a, 0x1a, 0x1a] @
          replicate 16 0)"
  by code_simp

lemma not_base64: "base64_DecodeString ''not base64!'' = Inl CorruptInputError"
  by code_simp

theorem VerifyLicense_mismatch_false_bad_base64_error_witness:
  "VerifyLicense demo_crypto demo_public_hex ''19191919-1919-5919-9919-191919191919''
     demo_license_key demo_namespace = Ok False \<and>
   (\<exists>e'. VerifyLicense demo_crypto demo_public_hex demo_device_uuid ''not base64!''
            demo_namespace = Err e' \<and>
          kind_of e' = FormatError)"
proof -
  have mismatch:
    "\<not> ed_verify demo_crypto (replicate 32 2)
         [0x19, 0x19, 0x19, 0x19, 0x19, 0x19, 0x59, 0x19, 0x99, 0x19, 0x19, 0x19, 0x19, 0x19, 0x19, 0x19]
         (replicate 32 2 @
          [0x1a, 0x1a, 0x1a, 0x1a, 0x1a, 0x1a, 0x5a, 0x1a, 0x9a, 0x1a, 0x1a, 0x1a, 0x1a, 0x1a, 0x1a, 0x1a] @
          replicate 16 0)"
    by code_simp
  then show ?thesis
    using VerifyLicense_mismatch_false_bad_base64_error
      [where publicKeyHex = demo_public_hex and publicKey = "replicate 32 2"
         and idStr = "''19191919-1919-5919-9919-191919191919''"
         and licenseKey = demo_license_key and cr = demo_crypto and ns = demo_namespace
         and licenseKey' = "''not base64!''" and e = CorruptInputError
         and publicKeyHex' = demo_public_hex and idStr' = demo_device_uuid
         and ns' = demo_namespace]
      demo_public_hex_decoded other_uuid_parsed demo_license_key_decoded not_base64
    by simp
qed

text \<open>
  Claim C3. A public key that is no hex text gives \<open>InvalidPublicKeyFormat\<close>
  (\<open>VerifyLicense_bad_hex\<close>). A public key of the wrong length does not: hex text of 4
  bytes, with a UUID text and a base64 license key, reaches \<^verbatim>\<open>ed25519.Verify\<close>, which
  panics on a key that has not 32 bytes (\<open>VerifyLicense_wrong_length\<close> for every such
  input). The theorem evaluates \<open>VerifyLicense\<close> on that input.
\<close>

theorem VerifyLicense_short_public_key_panics:
  "VerifyLicense cr ''02020202'' ''1a1a1a1a-1a1a-5a1a-9a1a-1a1a1a1a1a1a''
     ''AgICAgICAgICAgICAgICAgICAgICAgICAgICAgICAgIaGhoaGhpaGpoaGhoaGhoaAAAAAAAAAAAAAAAAAAAAAA==''
     namespaceIDStr
   = Panic (BadPublicKeyLength 4)"
proof -
  have key: "hex_DecodeString ''02020202'' = Inr [2, 2, 2, 2]"
    by code_simp
  have ident: "uuid_Parse ''1a1a1a1a-1a1a-5a1a-9a1a-1a1a1a1a1a1a''
      = Inr [0x1a, 0x1a, 0x1a, 0x1a, 0x1a, 0x1a, 0x5a, 0x1a, 0x9a, 0x1a, 0x1a, 0x1a, 0x1a, 0x1a, 0x1a, 0x1a]"
    by code_simp
  have sg: "base64_DecodeString
       ''AgICAgICAgICAgICAgICAgICAgICAgICAgICAgICAgIaGhoaGhpaGpoaGhoaGhoaAAAAAAAAAAAAAAAAAAAAAA==''
      = Inr (replicate 32 2 @
             [0x1a, 0x1a, 0x1a, 0x1a, 0x1a, 0x1a, 0x5a, 0x1a, 0x9a, 0x1a, 0x1a, 0x1a, 0x1a, 0x1a, 0x1a, 0x1a] @
             replicate 16 0)"
    by code_simp
  show ?thesis
    using VerifyLicense_wrong_length [OF key _ ident sg] by simp
qed

section \<open>Saving and loading the key pair\<close>

lemma ReadFile_after_SaveConfig:
  "SaveConfig js w k filename = (None, w') \<Longrightarrow>
   \<exists>s. MarshalIndent_config js
          \<lparr>private_key = hex_EncodeToString (PrivateKey k),
           public_key = hex_EncodeToString (PublicKey k),
           namespace_id = uuid_String (NamespaceID k)\<rparr> = Inr s \<and>
       ReadFile w' filename = Inr s"
  by (auto simp: SaveConfig_def os_WriteFile_def Let_def
        split: sum.splits option.splits prod.splits)

text \<open>
  Claim C4. For every valid key pair k (its public key is the public component of its
  private key, its namespace has 16 bytes): when \<open>SaveConfig\<close> succeeds, \<open>LoadConfig\<close> from
  the same file returns k. The JSON codec is assumed to read back the text it writes for
  the record of k.
\<close>

theorem save_then_load:
  assumes valid: "PrivateKey_Public (PrivateKey k) = Ok (PublicKey k)"
    and ns: "length (NamespaceID k) = 16"
    and json: "reads_back js \<lparr>private_key = hex_EncodeToString (PrivateKey k),
                              public_key = hex_EncodeToString (PublicKey k),
                              namespace_id = uuid_String (NamespaceID k)\<rparr>"
    and saved: "SaveConfig js w k filename = (None, w')"
  shows "LoadConfig js w' filename = Ok k"
proof -
  from ReadFile_after_SaveConfig [OF saved] obtain s where
    s: "MarshalIndent_config js
          \<lparr>private_key = hex_EncodeToString (PrivateKey k),
           public_key = hex_EncodeToString (PublicKey k),
           namespace_id = uuid_String (NamespaceID k)\<rparr> = Inr s"
    and r: "ReadFile w' filename = Inr s"
    by blast
  from json s have u: "Unmarshal_config js s =
      Inr \<lparr>private_key = hex_EncodeToString (PrivateKey k),
           public_key = hex_EncodeToString (PublicKey k),
           namespace_id = uuid_String (NamespaceID k)\<rparr>"
    by (simp add: reads_back_def)
  show ?thesis
    by (simp add: LoadConfig_def r u hex_roundtrip uuid_roundtrip [OF ns] valid)
qed

lemma demo_saved: "fst (SaveConfig demo_json demo_world demo_config ''licensor.json'') = None"
  by code_simp

lemma demo_reads_back:
  "reads_back demo_json \<lparr>private_key = hex_EncodeToString (PrivateKey demo_config),
                           public_key = hex_EncodeToString (PublicKey demo_config),
                           namespace_id = uuid_String (NamespaceID demo_config)\<rparr>"
proof -
  have "Unmarshal_config demo_json (write_object
               [(''private_key'', hex_EncodeToString (PrivateKey demo_config)),
                (''public_key'', hex_EncodeToString (PublicKey demo_config)),
                (''namespace_id'', uuid_String (NamespaceID demo_config))]) =
             Inr \<lparr>private_key = hex_EncodeToString (PrivateKey demo_config),
                  public_key = hex_EncodeToString (PublicKey demo_config),
                  namespace_id = uuid_String (NamespaceID demo_config)\<rparr>"
    by code_simp
  moreover have "MarshalIndent_config demo_json d = Inr (write_object
               [(''private_key'', private_key d),
                (''public_key'', public_key d),
                (''namespace_id'', namespace_id d)])" for d
    by (simp add: demo_json_def)
  ultimately show ?thesis
    by (simp add: reads_back_def)
qed

theorem save_then_load_witness:
  "PrivateKey_Public (PrivateKey demo_config) = Ok (PublicKey demo_config) \<and>
   length (NamespaceID demo_config) = 16 \<and>
   fst (SaveConfig demo_json demo_world demo_config ''licensor.json'') = None \<and>
   LoadConfig demo_json (snd (SaveConfig demo_json demo_world demo_config ''licensor.json''))
     ''licensor.json'' = Ok demo_config"
proof -
  have valid: "PrivateKey_Public (PrivateKey demo_config) = Ok (PublicKey demo_config)"
    by code_simp
  have ns: "length (NamespaceID demo_config) = 16"
    by code_simp
  have saved: "SaveConfig demo_json demo_world demo_config ''licensor.json''
      = (None, snd (SaveConfig demo_json demo_world demo_config ''licensor.json''))"
    using demo_saved by (cases "SaveConfig demo_json demo_world demo_config ''licensor.json''") simp
  show ?thesis
    using save_then_load [OF valid ns demo_reads_back saved] valid ns demo_saved
    by simp
qed

lemma saved_text: "ReadFile saved_world ''licensor.json'' = Inr demo_config_text"
  by (simp add: saved_world_def)

lemma tampered_text: "ReadFile tampered_world ''licensor.json'' = Inr tampered_config_text"
  by (simp add: tampered_world_def)

lemma demo_config_text_read:
  "Unmarshal_config demo_json demo_config_text =
     Inr \<lparr>private_key = demo_private_hex, public_key = demo_public_hex,
          namespace_id = demo_namespace\<rparr>"
  by code_simp

lemma tampered_config_text_read:
  "Unmarshal_config demo_json tampered_config_text =
     Inr \<lparr>private_key = demo_private_hex,
          public_key = ''ffffffffffffffffffffffffffffffffffffffffffffffffffffffffffffffff'',
          namespace_id = demo_namespace\<rparr>"
  by code_simp

lemma demo_private_hex_decoded:
  "hex_DecodeString demo_private_hex = Inr (replicate 32 1 @ replicate 32 2)"
  by code_simp

lemma demo_namespace_parsed:
  "uuid_Parse demo_namespace = Inr [3, 3, 3, 3, 3, 3, 0x43, 3, 0x83, 3, 3, 3, 3, 3, 3, 3]"
  by code_simp

lemma saved_world_loads: "LoadConfig demo_json saved_world ''licensor.json'' = Ok demo_config"
  by (simp add: LoadConfig_def saved_text demo_config_text_read demo_private_hex_decoded
        demo_namespace_parsed PrivateKey_Public_def go_copy_def demo_config_def)

text \<open>
  Claim C10. Every \<open>Config\<close> that \<open>LoadConfig\<close> returns has as public key the public
  component of its private key, and the \<open>public_key\<close> field of the file is never used: two
  files whose records differ only in \<open>public_key\<close> load to the same result.
\<close>

theorem LoadConfig_recomputes_public_key:
  "(LoadConfig js w filename = Ok c \<longrightarrow> PrivateKey_Public (PrivateKey c) = Ok (PublicKey c)) \<and>
   (ReadFile w filename = Inr s \<and> ReadFile w' filename' = Inr s' \<and>
    Unmarshal_config js s = Inr d \<and> Unmarshal_config js s' = Inr (d\<lparr>public_key := p\<rparr>)
    \<longrightarrow> LoadConfig js w' filename' = LoadConfig js w filename)"
proof (intro conjI impI)
  assume "LoadConfig js w filename = Ok c"
  then show "PrivateKey_Public (PrivateKey c) = Ok (PublicKey c)"
    by (auto simp: LoadConfig_def split: sum.splits result.splits)
next
  assume "ReadFile w filename = Inr s \<and> ReadFile w' filename' = Inr s' \<and>
    Unmarshal_config js s = Inr d \<and> Unmarshal_config js s' = Inr (d\<lparr>public_key := p\<rparr>)"
  then show "LoadConfig js w' filename' = LoadConfig js w filename"
    by (simp add: LoadConfig_def split: sum.splits)
qed

theorem LoadConfig_recomputes_public_key_witness:
  "LoadConfig demo_json saved_world ''licensor.json'' = Ok demo_config \<and>
   PrivateKey_Public (PrivateKey demo_config) = Ok (PublicKey demo_config) \<and>
   ReadFile saved_world ''licensor.json'' = Inr demo_config_text \<and>
   ReadFile tampered_world ''licensor.json'' = Inr tampered_config_text \<and>
   LoadConfig demo_json tampered_world ''licensor.json''
     = LoadConfig demo_json saved_world ''licensor.json''"
proof -
  have u: "Unmarshal_config demo_json tampered_config_text =
     Inr (\<lparr>private_key = demo_private_hex, public_key = demo_public_hex,
           namespace_id = demo_namespace\<rparr>
          \<lparr>public_key := ''ffffffffffffffffffffffffffffffffffffffffffffffffffffffffffffffff''\<rparr>)"
    by (simp add: tampered_config_text_read)
  show ?thesis
    using LoadConfig_recomputes_public_key
      [where js = demo_json and w = saved_world and filename = "''licensor.json''"
         and c = demo_config and s = demo_config_text and w' = tampered_world
         and filename' = "''licensor.json''" and s' = tampered_config_text
         and d = "\<lparr>private_key = demo_private_hex, public_key = demo_public_hex,
                   namespace_id = demo_namespace\<rparr>"
         and p = "''ffffffffffffffffffffffffffffffffffffffffffffffffffffffffffffffff''"]
      saved_world_loads saved_text tampered_text demo_config_text_read u
    by simp
qed

text \<open>
  Claim C5 says that \<open>LoadConfig\<close> compares the stored public key with the private key and
  fails when they differ. It does not: the file below holds the private key of
  \<open>demo_config\<close>, whose public component is 32 bytes \<open>02\<close>, and the public key \<open>ff...ff\<close>;
  \<open>LoadConfig\<close> returns \<open>demo_config\<close>.
\<close>

theorem LoadConfig_accepts_inconsistent_public_key:
  "ReadFile tampered_world ''licensor.json'' = Inr tampered_config_text \<and>
   Unmarshal_config demo_json tampered_config_text =
     Inr \<lparr>private_key = demo_private_hex,
          public_key = ''ffffffffffffffffffffffffffffffffffffffffffffffffffffffffffffffff'',
          namespace_id = demo_namespace\<rparr> \<and>
   hex_DecodeString demo_private_hex = Inr (replicate 32 1 @ replicate 32 2) \<and>
   PrivateKey_Public (replicate 32 1 @ replicate 32 2) = Ok (replicate 32 2) \<and>
   hex_DecodeString ''ffffffffffffffffffffffffffffffffffffffffffffffffffffffffffffffff''
     = Inr (replicate 32 0xFF) \<and>
   LoadConfig demo_json tampered_world ''licensor.json'' = Ok demo_config"
proof -
  have "PrivateKey_Public (replicate 32 1 @ replicate 32 2) = Ok (replicate 32 2)"
    by code_simp
  moreover have "hex_DecodeString ''ffffffffffffffffffffffffffffffffffffffffffffffffffffffffffffffff''
     = Inr (replicate 32 0xFF)"
    by code_simp
  moreover have "LoadConfig demo_json tampered_world ''licensor.json'' = Ok demo_config"
    by (simp add: LoadConfig_def tampered_text tampered_config_text_read
          demo_private_hex_decoded demo_namespace_parsed PrivateKey_Public_def go_copy_def
          demo_config_def)
  ultimately show ?thesis
    by (simp add: tampered_text tampered_config_text_read demo_private_hex_decoded)
qed

text \<open>
  Claim C5 as amended. \<open>LoadConfig\<close> does not read the stored public key: whenever the
  file is read and parsed, the private key is hex text of at least 32 bytes and the
  namespace is a UUID text, it succeeds, whatever the \<open>public_key\<close> field holds, and the
  public key it returns is the public component of the stored private key.
\<close>

theorem LoadConfig_never_compares_public_key:
  assumes "ReadFile w filename = Inr s"
    and "Unmarshal_config js s = Inr d"
    and "hex_DecodeString (private_key d) = Inr priv"
    and "32 \<le> length priv"
    and "uuid_Parse (namespace_id d) = Inr ns"
  shows "LoadConfig js w filename
         = Ok \<lparr>PrivateKey = priv, PublicKey = go_copy 32 (drop 32 priv), NamespaceID = ns\<rparr> \<and>
         PrivateKey_Public priv = Ok (go_copy 32 (drop 32 priv))"
  using assms by (simp add: LoadConfig_def PrivateKey_Public_def)

theorem LoadConfig_never_compares_public_key_witness:
  "ReadFile tampered_world ''licensor.json'' = Inr tampered_config_text \<and>
   32 \<le> length (replicate 32 (1::byte) @ replicate 32 2) \<and>
   LoadConfig demo_json tampered_world ''licensor.json''
     = Ok \<lparr>PrivateKey = replicate 32 1 @ replicate 32 2,
           PublicKey = go_copy 32 (drop 32 (replicate 32 1 @ replicate 32 2)),
           NamespaceID = [3, 3, 3, 3, 3, 3, 0x43, 3, 0x83, 3, 3, 3, 3, 3, 3, 3]\<rparr>"
proof -
  have len: "32 \<le> length (replicate 32 (1::byte) @ replicate 32 2)" by simp
  show ?thesis
    using LoadConfig_never_compares_public_key
      [OF tampered_text tampered_config_text_read _ len, of "[3, 3, 3, 3, 3, 3, 0x43, 3, 0x83, 3, 3, 3, 3, 3, 3, 3]"]
      tampered_text len
    by (simp add: demo_private_hex_decoded demo_namespace_parsed)
qed

section \<open>The verifier derives the identity again\<close>

lemma MacAddressToUUIDv5_Ok:
  "MacAddressToUUIDv5 cr macAddress ns = Ok u \<Longrightarrow> length u = 16"
  by (auto simp: MacAddressToUUIDv5_def length_uuid_NewSHA1)

lemma commandVerifyLicense_report:
  assumes loaded: "LoadLicense js w licenseFile = Ok ld"
    and report: "commandVerifyLicense cr js w licenseFile mac
                 = LicenseVerification macAddress deviceUUID valid"
  shows "\<exists>ns. uuid_Parse (LicenseNamespaceID ld) = Inr ns \<and>
           (if mac \<noteq> [] then Ok mac else GetBRLANMacAddress w) = Ok macAddress \<and>
           MacAddressToUUIDv5 cr macAddress ns = Ok deviceUUID \<and>
           VerifyLicense cr (LicensePublicKey ld) (uuid_String deviceUUID)
             (LicenseKey ld) (LicenseNamespaceID ld) = Ok valid"
proof (cases "if mac \<noteq> [] then Ok mac else GetBRLANMacAddress w")
  case (Ok m)
  show ?thesis
  proof (cases "uuid_Parse (LicenseNamespaceID ld)")
    case (Inl e)
    with report loaded Ok show ?thesis
      by (simp add: commandVerifyLicense_def)
  next
    case (Inr ns)
    obtain u where u: "MacAddressToUUIDv5 cr m ns = Ok u"
      by (simp add: MacAddressToUUIDv5_def)
    show ?thesis
    proof (cases "VerifyLicense cr (LicensePublicKey ld) (uuid_String u)
                    (LicenseKey ld) (LicenseNamespaceID ld)")
      case (Ok v)
      with report loaded \<open>(if mac \<noteq> [] then Ok mac else GetBRLANMacAddress w) = Ok m\<close> Inr u
      have "m = macAddress \<and> u = deviceUUID \<and> v = valid"
        by (simp add: commandVerifyLicense_def)
      with \<open>(if mac \<noteq> [] then Ok mac else GetBRLANMacAddress w) = Ok m\<close> Inr u Ok
      show ?thesis by simp
    next
      case (Err e)
      with report loaded \<open>(if mac \<noteq> [] then Ok mac else GetBRLANMacAddress w) = Ok m\<close> Inr u
      show ?thesis by (simp add: commandVerifyLicense_def)
    next
      case (Panic p)
      with report loaded \<open>(if mac \<noteq> [] then Ok mac else GetBRLANMacAddress w) = Ok m\<close> Inr u
      show ?thesis by (simp add: commandVerifyLicense_def)
    qed
  qed
next
  case (Err e)
  with report loaded show ?thesis by (simp add: commandVerifyLicense_def)
next
  case (Panic p)
  with report loaded show ?thesis by (simp add: commandVerifyLicense_def)
qed

text \<open>
  Claim C2. \<open>commandVerifyLicense\<close> derives the device identity from the address presented
  at verification time and the namespace of the record; the \<open>DeviceUUID\<close> field of the
  record is never read. So a record with any other stored \<open>DeviceUUID\<close> gives the same
  result, and when the command reports a valid license, the signature of the record
  verifies against the identity derived from the presented address.
\<close>

theorem commandVerifyLicense_recomputes_identity:
  assumes loaded: "LoadLicense js w licenseFile = Ok ld"
  shows "(LoadLicense js w' licenseFile' = Ok (ld\<lparr>DeviceUUID := stored\<rparr>) \<and>
          Interfaces w' = Interfaces w
          \<longrightarrow> commandVerifyLicense cr js w' licenseFile' mac
              = commandVerifyLicense cr js w licenseFile mac) \<and>
         (commandVerifyLicense cr js w licenseFile mac
            = LicenseVerification macAddress deviceUUID True
          \<longrightarrow> (\<exists>ns publicKey sg.
                 uuid_Parse (LicenseNamespaceID ld) = Inr ns \<and>
                 MacAddressToUUIDv5 cr macAddress ns = Ok deviceUUID \<and>
                 hex_DecodeString (LicensePublicKey ld) = Inr publicKey \<and>
                 base64_DecodeString (LicenseKey ld) = Inr sg \<and>
                 ed_verify cr publicKey deviceUUID sg) \<and>
              (mac \<noteq> [] \<longrightarrow> macAddress = mac))"
proof (intro conjI impI)
  assume "LoadLicense js w' licenseFile' = Ok (ld\<lparr>DeviceUUID := stored\<rparr>) \<and>
          Interfaces w' = Interfaces w"
  then have other: "LoadLicense js w' licenseFile' = Ok (ld\<lparr>DeviceUUID := stored\<rparr>)"
    and "Interfaces w' = Interfaces w"
    by simp_all
  then have "GetBRLANMacAddress w' = GetBRLANMacAddress w"
    by (simp add: GetBRLANMacAddress_def)
  then show "commandVerifyLicense cr js w' licenseFile' mac
              = commandVerifyLicense cr js w licenseFile mac"
    by (simp add: commandVerifyLicense_def loaded other cong: result.case_cong sum.case_cong)
next
  assume valid: "commandVerifyLicense cr js w licenseFile mac
            = LicenseVerification macAddress deviceUUID True"
  from commandVerifyLicense_report [OF loaded valid] obtain ns where
    ns: "uuid_Parse (LicenseNamespaceID ld) = Inr ns"
    and mac: "(if mac \<noteq> [] then Ok mac else GetBRLANMacAddress w) = Ok macAddress"
    and derived: "MacAddressToUUIDv5 cr macAddress ns = Ok deviceUUID"
    and verified: "VerifyLicense cr (LicensePublicKey ld) (uuid_String deviceUUID)
                     (LicenseKey ld) (LicenseNamespaceID ld) = Ok True"
    by blast
  have "uuid_Parse (uuid_String deviceUUID) = Inr deviceUUID"
    by (rule uuid_roundtrip) (rule MacAddressToUUIDv5_Ok [OF derived])
  with VerifyLicense_Ok_True [OF verified] ns derived
  show "\<exists>ns publicKey sg.
                 uuid_Parse (LicenseNamespaceID ld) = Inr ns \<and>
                 MacAddressToUUIDv5 cr macAddress ns = Ok deviceUUID \<and>
                 hex_DecodeString (LicensePublicKey ld) = Inr publicKey \<and>
                 base64_DecodeString (LicenseKey ld) = Inr sg \<and>
                 ed_verify cr publicKey deviceUUID sg"
    by auto
  show "macAddress = mac" if "mac \<noteq> []"
    using mac that by simp
qed

lemma licensed_world_loads:
  "LoadLicense demo_json (licensed_world demo_device_uuid) ''license.json'' = Ok demo_license"
  by code_simp

lemma forged_world_loads:
  "LoadLicense demo_json (licensed_world ''00000000-0000-0000-0000-000000000000'') ''license.json''
   = Ok (demo_license\<lparr>DeviceUUID := ''00000000-0000-0000-0000-000000000000''\<rparr>)"
  by code_simp

lemma licensed_world_verifies:
  "commandVerifyLicense demo_crypto demo_json (licensed_world demo_device_uuid) ''license.json''
     ''AA:BB:CC:DD:EE:FF''
   = LicenseVerification ''AA:BB:CC:DD:EE:FF''
       [0x1a, 0x1a, 0x1a, 0x1a, 0x1a, 0x1a, 0x5a, 0x1a, 0x9a, 0x1a, 0x1a, 0x1a, 0x1a, 0x1a, 0x1a, 0x1a]
       True"
  by code_simp

theorem commandVerifyLicense_recomputes_identity_witness:
  "LoadLicense demo_json (licensed_world demo_device_uuid) ''license.json'' = Ok demo_license \<and>
   LoadLicense demo_json (licensed_world ''00000000-0000-0000-0000-000000000000'') ''license.json''
     = Ok (demo_license\<lparr>DeviceUUID := ''00000000-0000-0000-0000-000000000000''\<rparr>) \<and>
   commandVerifyLicense demo_crypto demo_json
       (licensed_world ''00000000-0000-0000-0000-000000000000'') ''license.json'' ''AA:BB:CC:DD:EE:FF''
     = LicenseVerification ''AA:BB:CC:DD:EE:FF''
         [0x1a, 0x1a, 0x1a, 0x1a, 0x1a, 0x1a, 0x5a, 0x1a, 0x9a, 0x1a, 0x1a, 0x1a, 0x1a, 0x1a, 0x1a, 0x1a]
         True \<and>
   (\<exists>ns publicKey sg.
      uuid_Parse (LicenseNamespaceID demo_license) = Inr ns \<and>
      MacAddressToUUIDv5 demo_crypto ''AA:BB:CC:DD:EE:FF'' ns
        = Ok [0x1a, 0x1a, 0x1a, 0x1a, 0x1a, 0x1a, 0x5a, 0x1a, 0x9a, 0x1a, 0x1a, 0x1a, 0x1a, 0x1a, 0x1a, 0x1a] \<and>
      hex_DecodeString (LicensePublicKey demo_license) = Inr publicKey \<and>
      base64_DecodeString (LicenseKey demo_license) = Inr sg \<and>
      ed_verify demo_crypto publicKey
        [0x1a, 0x1a, 0x1a, 0x1a, 0x1a, 0x1a, 0x5a, 0x1a, 0x9a, 0x1a, 0x1a, 0x1a, 0x1a, 0x1a, 0x1a, 0x1a] sg)"
proof -
  have same: "Interfaces (licensed_world ''00000000-0000-0000-0000-000000000000'')
              = Interfaces (licensed_world demo_device_uuid)"
    by (simp add: licensed_world_def)
  note t = commandVerifyLicense_recomputes_identity [OF licensed_world_loads,
      where w' = "licensed_world ''00000000-0000-0000-0000-000000000000''"
        and licenseFile' = "''license.json''"
        and stored = "''00000000-0000-0000-0000-000000000000''"
        and cr = demo_crypto and mac = "''AA:BB:CC:DD:EE:FF''"
        and macAddress = "''AA:BB:CC:DD:EE:FF''"
        and deviceUUID = "[0x1a, 0x1a, 0x1a, 0x1a, 0x1a, 0x1a, 0x5a, 0x1a, 0x9a, 0x1a, 0x1a, 0x1a, 0x1a, 0x1a, 0x1a, 0x1a]"]
  have eq:
    "commandVerifyLicense demo_crypto demo_json
       (licensed_world ''00000000-0000-0000-0000-000000000000'') ''license.json'' ''AA:BB:CC:DD:EE:FF''
     = commandVerifyLicense demo_crypto demo_json (licensed_world demo_device_uuid)
         ''license.json'' ''AA:BB:CC:DD:EE:FF''"
    by (rule mp [OF conjunct1 [OF t]]) (rule conjI [OF forged_world_loads same])
  from eq licensed_world_verifies have forged:
    "commandVerifyLicense demo_crypto demo_json
       (licensed_world ''00000000-0000-0000-0000-000000000000'') ''license.json'' ''AA:BB:CC:DD:EE:FF''
     = LicenseVerification ''AA:BB:CC:DD:EE:FF''
         [0x1a, 0x1a, 0x1a, 0x1a, 0x1a, 0x1a, 0x5a, 0x1a, 0x9a, 0x1a, 0x1a, 0x1a, 0x1a, 0x1a, 0x1a, 0x1a]
         True"
    by (rule trans)
  have signed:
    "\<exists>ns publicKey sg.
      uuid_Parse (LicenseNamespaceID demo_license) = Inr ns \<and>
      MacAddressToUUIDv5 demo_crypto ''AA:BB:CC:DD:EE:FF'' ns
        = Ok [0x1a, 0x1a, 0x1a, 0x1a, 0x1a, 0x1a, 0x5a, 0x1a, 0x9a, 0x1a, 0x1a, 0x1a, 0x1a, 0x1a, 0x1a, 0x1a] \<and>
      hex_DecodeString (LicensePublicKey demo_license) = Inr publicKey \<and>
      base64_DecodeString (LicenseKey demo_license) = Inr sg \<and>
      ed_verify demo_crypto publicKey
        [0x1a, 0x1a, 0x1a, 0x1a, 0x1a, 0x1a, 0x5a, 0x1a, 0x9a, 0x1a, 0x1a, 0x1a, 0x1a, 0x1a, 0x1a, 0x1a] sg"
    by (rule conjunct1 [OF mp [OF conjunct2 [OF t] licensed_world_verifies]])
  show ?thesis
    by (rule conjI [OF licensed_world_loads conjI [OF forged_world_loads conjI [OF forged signed]]])
qed

section \<open>Changing one bit of a license key\<close>




















end
